theory Spec2Isabelle
  imports Complex_Main "HOL-Library.Sublist"
begin

section \<open>Python string operations used by the desk bot\<close>

text \<open>
  Strings are lists of characters, the UTF-8 bytes of the Python string: a character below 128
  is an ASCII character, and every other code point is a run of characters from 128 on. The
  operations below follow the Python built-ins the source calls (\<^verbatim>\<open>lower\<close>, \<^verbatim>\<open>in\<close>, \<^verbatim>\<open>find\<close>,
  \<^verbatim>\<open>replace\<close>, \<^verbatim>\<open>strip\<close>, slicing).

  On a string of ASCII characters \<^verbatim>\<open>str.lower\<close> maps \<^verbatim>\<open>A\<close>..\<^verbatim>\<open>Z\<close> to \<^verbatim>\<open>a\<close>..\<^verbatim>\<open>z\<close> and leaves every
  other character alone, and \<^verbatim>\<open>str.strip\<close> removes the ASCII white space of \<^verbatim>\<open>str.isspace\<close> at
  both ends. On any other string the two built-ins follow the Unicode tables of the
  interpreter (other case pairs, other white space), which are no part of this development:
  \<open>unicode\<close> stands for what they return there, and nothing is known of it.
\<close>

definition ascii :: "string \<Rightarrow> bool" where
  "ascii s = list_all (\<lambda>c. (of_char c :: nat) < 128) s"

datatype builtin = StrLower | StrStrip

definition unicode :: "builtin \<Rightarrow> string \<Rightarrow> string" where
  "unicode = undefined"

definition lower_char :: "char \<Rightarrow> char" where
  "lower_char c =
     (if 65 \<le> (of_char c :: nat) \<and> (of_char c :: nat) \<le> 90
      then char_of ((of_char c :: nat) + 32) else c)"

definition lower :: "string \<Rightarrow> string" where
  "lower s = (if ascii s then map lower_char s else unicode StrLower s)"

text \<open>\<^verbatim>\<open>sub in s\<close>: substring containment.\<close>

fun contains :: "string \<Rightarrow> string \<Rightarrow> bool" where
  "contains sub [] = (sub = [])"
| "contains sub (c # cs) = (prefix sub (c # cs) \<or> contains sub cs)"

text \<open>
  \<^verbatim>\<open>s.find(sub, start)\<close>: the lowest index at or after \<^verbatim>\<open>start\<close> where \<^verbatim>\<open>sub\<close> begins, or
  \<^verbatim>\<open>-1\<close>. \<open>find_aux\<close> scans the rest of the string, counting the index.
\<close>

fun find_aux :: "string \<Rightarrow> string \<Rightarrow> nat \<Rightarrow> nat option" where
  "find_aux sub [] i = (if sub = [] then Some i else None)"
| "find_aux sub (c # cs) i =
     (if prefix sub (c # cs) then Some i else find_aux sub cs (Suc i))"

definition find_str :: "string \<Rightarrow> string \<Rightarrow> nat \<Rightarrow> int" where
  "find_str s sub start =
     (if length s < start then - 1
      else case find_aux sub (drop start s) start of None \<Rightarrow> - 1 | Some i \<Rightarrow> int i)"

text \<open>\<^verbatim>\<open>s[a:b]\<close> and \<^verbatim>\<open>s[a:]\<close> for indices that are not negative.\<close>

definition slice :: "string \<Rightarrow> nat \<Rightarrow> nat \<Rightarrow> string" where
  "slice s a b = take (b - a) (drop a s)"




section \<open>Display Client\<close>

text \<open>
  \<^verbatim>\<open>requests.get(url, timeout=...)\<close> either raises (timeout, connection error) or returns a
  response with a status code, whatever the code is. A \<^verbatim>\<open>print\<close> writes its line or raises
  (the console cannot encode the line, or is closed).
\<close>

datatype http_get = Timeout | ConnectionError | Response nat


datatype exn = Exception








section \<open>Display directives\<close>

text \<open>
  The clock and the weather are outside the program: \<open>now\<close> is what \<^verbatim>\<open>get_time()\<close> returns at
  the call, and \<^verbatim>\<open>get_weather()\<close> is the constant placeholder of the source, whose text is
  \<^verbatim>\<open>Sunny, 72\<close>, a degree sign (two bytes in UTF-8) and \<^verbatim>\<open>F\<close>.
\<close>

definition weather_text :: string where
  "weather_text = ''Sunny, 72'' @ [CHR 0xC2, CHR 0xB0] @ ''F''"

text \<open>
  The chain of \<^verbatim>\<open>if\<close>/\<^verbatim>\<open>elif\<close> on the directive's tag, written twice in the source (in
  \<^verbatim>\<open>process_display_commands\<close> and in \<^verbatim>\<open>chat_with_ai_stream\<close>): the list of commands passed to
  \<^verbatim>\<open>send_to_esp32\<close>, one or none. An unknown tag sends nothing.
\<close>

definition handle_display_command :: "string \<Rightarrow> string \<Rightarrow> string list" where
  "handle_display_command now command =
     (if command = ''happy'' then [''happy'']
      else if command = ''sad'' then [''sad'']
      else if command = ''neutral'' then [''neutral'']
      else if command = ''angry'' then [''angry'']
      else if command = ''grinning'' then [''grinning'']
      else if command = ''scared'' then [''scared'']
      else if command = ''time'' then [''text:Time: '' @ now]
      else if command = ''weather'' then [''text:'' @ weather_text]
      else if prefix ''text:'' command then [command]
      else [])"

text \<open>
  \<^verbatim>\<open>process_display_commands\<close>: the cleaned response and the commands sent to the device.
\<close>

definition process_display_commands :: "string \<Rightarrow> string \<Rightarrow> string \<times> string list" where
  "process_display_commands now response =
     (if contains ''[DISPLAY:'' response then
        (let start_idx = find_str response ''[DISPLAY:'' 0;
             end_idx = find_str response '']'' (nat start_idx)
         in if end_idx > start_idx then
              (let command = lower (slice response (nat start_idx + 9) (nat end_idx))
               in (take (nat start_idx) response @ drop (nat end_idx + 1) response,
                   handle_display_command now command))
            else (response, []))
      else (response, []))"

section \<open>Chat Pipeline\<close>

text \<open>
  A transcript entry is a role and a content. The content is a string, except in the one
  entry the program can make whose content is \<^verbatim>\<open>None\<close>: an assistant entry taken from a
  response whose content is the JSON \<^verbatim>\<open>null\<close>. \<open>AssistantNull\<close> is the role of that entry,
  and its string is empty.
\<close>

datatype role = System | User | Assistant | AssistantNull

type_synonym entry = "role \<times> string"

definition apology :: string where
  "apology = ''Sorry, I encountered an error while processing your request.''"

text \<open>
  What a chat call leaves behind: the returned text, the transcript, the commands sent to the
  device in order, and the \<^verbatim>\<open>messages\<close> of the request it issued.
\<close>

record chat_result =
  reply :: string
  history :: "entry list"
  sent :: "string list"
  request_messages :: "entry list"

text \<open>
  The answer to the single-shot request: \<^verbatim>\<open>requests.post\<close> raises, or there is a response with
  a status code. Its body either gives the string at
  \<^verbatim>\<open>["choices"][0]["message"]["content"]\<close> or makes the extraction raise (\<open>None\<close>: the
  body is not JSON, or a key or the choice is missing). \<open>ChatNull\<close> is the response with
  status 200 whose content is the JSON \<^verbatim>\<open>null\<close>: the entry is appended with that content, and
  \<^verbatim>\<open>process_display_commands\<close> then raises on it, which the handler turns into the apology.
\<close>

datatype chat_response = ChatRaises | ChatResponse nat "string option" | ChatNull

definition chat_with_ai ::
  "string \<Rightarrow> chat_response \<Rightarrow> entry list \<Rightarrow> string \<Rightarrow> chat_result" where
  "chat_with_ai now r conversation_history user_input =
     (let h = conversation_history @ [(User, user_input)];
          failed = \<lparr>reply = apology, history = h, sent = [], request_messages = h\<rparr>
      in case r of
           ChatRaises \<Rightarrow> failed
         | ChatNull \<Rightarrow> failed\<lparr>history := h @ [(AssistantNull, [])]\<rparr>
         | ChatResponse status body \<Rightarrow>
             if status \<noteq> 200 then failed
             else case body of
                    None \<Rightarrow> failed
                  | Some ai_response \<Rightarrow>
                      (let (cleaned_response, cmds) = process_display_commands now ai_response
                       in \<lparr>reply = cleaned_response,
                           history = h @ [(Assistant, ai_response)],
                           sent = cmds, request_messages = h\<rparr>))"

text \<open>
  One line of the streamed response, after \<^verbatim>\<open>iter_lines\<close>, \<^verbatim>\<open>decode\<close> and \<^verbatim>\<open>json.loads\<close>: an
  empty keep-alive line, a line that does not start with \<^verbatim>\<open>data:\<close>, the \<^verbatim>\<open>data: [DONE]\<close>
  sentinel, a data line that is not JSON (\<^verbatim>\<open>JSONDecodeError\<close>), a data line whose content delta
  is the given string (empty when the chunk has none), and a line at which any other exception
  is raised (the connection drops, or the chunk has an unexpected shape).
\<close>

datatype stream_line = KeepAlive | NotData | Done | Malformed | Delta string | Raises

record stream_state =
  full_response :: string
  buffer :: string
  display_cmd :: "string option"
  dispatched :: "string list"

text \<open>
  The body of the loop for a non-empty content delta. \<^verbatim>\<open>not display_cmd\<close> holds for \<^verbatim>\<open>None\<close>
  and for the empty string.
\<close>

definition on_delta :: "string \<Rightarrow> string \<Rightarrow> stream_state \<Rightarrow> stream_state" where
  "on_delta now delta_content st =
     (let st1 = st\<lparr>full_response := full_response st @ delta_content,
                     buffer := buffer st @ delta_content\<rparr>;
          b = buffer st1
      in if contains ''[DISPLAY:'' b \<and> contains '']'' b
            \<and> (display_cmd st1 = None \<or> display_cmd st1 = Some [])
         then (let start_idx = find_str b ''[DISPLAY:'' 0;
                   end_idx = find_str b '']'' (nat start_idx)
               in if end_idx > start_idx then
                    (let cmd = lower (slice b (nat start_idx + 9) (nat end_idx))
                     in st1\<lparr>display_cmd := Some cmd,
                            dispatched := dispatched st1 @ handle_display_command now cmd\<rparr>)
                  else st1)
         else st1)"

text \<open>
  The loop over the lines. \<open>Inl\<close> is an exception that leaves the loop, with the state at that
  point (the commands already sent stay sent); \<open>Inr\<close> is the state when the loop ends, by
  the sentinel or by the end of the stream.
\<close>

fun consume_stream :: "string \<Rightarrow> stream_line list \<Rightarrow> stream_state \<Rightarrow> stream_state + stream_state" where
  "consume_stream now [] st = Inr st"
| "consume_stream now (KeepAlive # ls) st = consume_stream now ls st"
| "consume_stream now (NotData # ls) st = consume_stream now ls st"
| "consume_stream now (Done # ls) st = Inr st"
| "consume_stream now (Malformed # ls) st = consume_stream now ls st"
| "consume_stream now (Delta d # ls) st =
     (if d \<noteq> [] then consume_stream now ls (on_delta now d st)
      else consume_stream now ls st)"
| "consume_stream now (Raises # ls) st = Inl st"

datatype stream_response = StreamRaises | StreamResponse nat "stream_line list"

definition chat_with_ai_stream ::
  "string \<Rightarrow> stream_response \<Rightarrow> entry list \<Rightarrow> string \<Rightarrow> chat_result" where
  "chat_with_ai_stream now r conversation_history user_input =
     (let h = conversation_history @ [(User, user_input)];
          st0 = \<lparr>full_response = [], buffer = [], display_cmd = None,
                 dispatched = [''neutral'']\<rparr>;
          failed = (\<lambda>cmds. \<lparr>reply = apology, history = h, sent = cmds, request_messages = h\<rparr>)
      in case r of
           StreamRaises \<Rightarrow> failed (dispatched st0)
         | StreamResponse status ls \<Rightarrow>
             if status \<noteq> 200 then failed (dispatched st0)
             else case consume_stream now ls st0 of
                    Inl st \<Rightarrow> failed (dispatched st)
                  | Inr st \<Rightarrow>
                      (let (cleaned_response, cmds) =
                             process_display_commands now (full_response st)
                       in \<lparr>reply = cleaned_response,
                           history = h @ [(Assistant, full_response st)],
                           sent = dispatched st @ cmds, request_messages = h\<rparr>))"

section \<open>Activation Gate\<close>


text \<open>The command-line arguments, with \<^verbatim>\<open>always_listen\<close> as \<^verbatim>\<open>main\<close> adds it.\<close>

record args =
  text_mode :: bool
  mute :: bool
  fallback_tts :: bool
  activation_only :: bool
  realtime :: bool
  use_openai_speech :: bool
  stream :: bool
  voice :: string
  always_listen :: bool





datatype recognition = UnknownValueError | RequestError | RecognitionRaises | Recognized string



section \<open>Speech output\<close>

text \<open>
  The speech API answers with a status or the request raises; playing the audio works or
  raises; the local engine speaks or raises. What is heard is the list of utterances.
\<close>

datatype tts_response = TtsRaises | TtsResponse nat

datatype playback = PlaybackRaises | Played

datatype local_tts = LocalRaises | LocalSpeaks

datatype utterance = CloudVoice string string | LocalVoice string

text \<open>
  \<^verbatim>\<open>speak_with_openai_tts\<close>: every failure is caught and printed inside the function, so it
  returns normally on every path.
\<close>

definition speak_with_openai_tts ::
  "string \<Rightarrow> string \<Rightarrow> tts_response \<Rightarrow> playback \<Rightarrow> (exn + unit) \<times> utterance list" where
  "speak_with_openai_tts text v r p =
     (if text = [] then (Inr (), [])
      else case r of
             TtsRaises \<Rightarrow> (Inr (), [])
           | TtsResponse status \<Rightarrow>
               if status = 200 then
                 (case p of Played \<Rightarrow> (Inr (), [CloudVoice text v])
                          | PlaybackRaises \<Rightarrow> (Inr (), []))
               else (Inr (), []))"

definition speak_text ::
  "string \<Rightarrow> bool \<Rightarrow> string \<Rightarrow> tts_response \<Rightarrow> playback \<Rightarrow> local_tts \<Rightarrow> utterance list" where
  "speak_text text use_openai_tts v r p l =
     (let (success, heard) =
            (if use_openai_tts then
               (case speak_with_openai_tts text v r p of
                  (Inr u, us) \<Rightarrow> (True, us)
                | (Inl e, us) \<Rightarrow> (False, us))
             else (False, []))
      in if \<not> use_openai_tts \<or> \<not> success then
           heard @ (case l of LocalSpeaks \<Rightarrow> [LocalVoice text] | LocalRaises \<Rightarrow> [])
         else heard)"

section \<open>Capture Thread\<close>







section \<open>Main Loop\<close>

text \<open>
  The events of the loop: a call of \<^verbatim>\<open>send_to_esp32\<close> with a command, a line printed, a text
  that \<^verbatim>\<open>speak_text\<close> goes on to speak after its own print, and the join with its timeout.
\<close>

datatype main_event = Device string | Print string | Say string | Join nat

definition is_exit :: "string \<Rightarrow> bool" where
  "is_exit user_input = (lower user_input \<in> set [''quit'', ''exit'', ''bye''])"

definition goodbye :: string where
  "goodbye = ''Goodbye! Have a great day!''"

text \<open>
  The body of the loop calls three things that no handler around them guards: \<^verbatim>\<open>print\<close>,
  \<^verbatim>\<open>speak_text\<close> (whose first statement is a \<^verbatim>\<open>print\<close> outside its \<^verbatim>\<open>try\<close>), and
  \<^verbatim>\<open>send_to_esp32\<close> (which raises when its handler's \<^verbatim>\<open>print\<close> does). \<open>raises\<close> of a turn
  names the one of them that raises in that turn, if any. In the traditional loop the call
  that reads the input (\<^verbatim>\<open>listen_for_speech\<close>, which opens the microphone outside its \<^verbatim>\<open>try\<close>,
  or \<^verbatim>\<open>input\<close>) can raise too. \<^verbatim>\<open>process_audio\<close> and the chat functions are taken as they are
  modelled above, where they always return.

  One turn of the loop meets: the queue (empty after the timeout, or a chunk for which
  \<^verbatim>\<open>process_audio\<close> returns the given value), the clock, and the answers of the chat service
  to the single-shot and to the streamed request.
\<close>

datatype point = AtInput | AtPrint | AtSpeak | AtNeutral

datatype queue_get = QueueEmpty | Chunk "string option"

record turn =
  got :: queue_get
  clock :: string
  single :: chat_response
  streamed :: stream_response
  raises :: "point option"

text \<open>How the loop stands after the turns it met: still running, left by \<^verbatim>\<open>break\<close>, or left
  by an exception.\<close>

datatype leave = Running | Break | Raised

text \<open>
  The branch for an exit phrase, the same in both loops: the farewell is printed, spoken
  unless muted, and the loop breaks, unless one of the two raises first.
\<close>

definition farewell :: "args \<Rightarrow> turn \<Rightarrow> leave \<times> main_event list" where
  "farewell a t =
     (if raises t = Some AtPrint then (Raised, [])
      else if mute a then (Break, [Print (''AI: '' @ goodbye)])
      else if raises t = Some AtSpeak then (Raised, [Print (''AI: '' @ goodbye)])
      else (Break, [Print (''AI: '' @ goodbye), Say goodbye]))"

text \<open>
  The response to a command that is not an exit phrase, the same in both loops: the chat call,
  the printed and spoken reply, and the device back to the neutral face. It returns whether
  it ran to its end (no exception), the new transcript and the events.
\<close>

definition respond ::
  "args \<Rightarrow> turn \<Rightarrow> entry list \<Rightarrow> string \<Rightarrow> bool \<times> entry list \<times> main_event list" where
  "respond a t h user_input =
     (let res = (if stream a then chat_with_ai_stream (clock t) (streamed t) h user_input
                 else chat_with_ai (clock t) (single t) h user_input);
          es0 = map Device (sent res);
          es1 = es0 @ [Print (''AI: '' @ reply res)];
          es2 = es1 @ (if \<not> mute a then [Say (reply res)] else [])
      in if raises t = Some AtPrint then (False, history res, es0)
         else if \<not> mute a \<and> raises t = Some AtSpeak then (False, history res, es1)
         else if raises t = Some AtNeutral then (False, history res, es2 @ [Device ''neutral''])
         else (True, history res, es2 @ [Device ''neutral'']))"

text \<open>
  The \<^verbatim>\<open>while True\<close> loop of the real-time mode over the turns it meets. Its inner handler
  catches \<^verbatim>\<open>queue.Empty\<close> only, so any other exception leaves the loop.
\<close>

fun realtime_loop :: "args \<Rightarrow> turn list \<Rightarrow> entry list \<Rightarrow> leave \<times> entry list \<times> main_event list" where
  "realtime_loop a [] h = (Running, h, [])"
| "realtime_loop a (t # ts) h =
     (case got t of
        QueueEmpty \<Rightarrow> realtime_loop a ts h
      | Chunk None \<Rightarrow> realtime_loop a ts h
      | Chunk (Some user_input) \<Rightarrow>
          if user_input \<noteq> [] then
            (if is_exit user_input then (fst (farewell a t), h, snd (farewell a t))
             else (let (completed, h', es) = respond a t h user_input
                   in if completed then
                        (let (left, h'', es') = realtime_loop a ts h'
                         in (left, h'', es @ es'))
                      else (Raised, h', es)))
          else realtime_loop a ts h)"

datatype status = Listening | Shutdown | Aborted

record bot =
  phase :: status
  continue_listening :: bool
  transcript :: "entry list"
  events :: "main_event list"

text \<open>
  The real-time branch of \<^verbatim>\<open>main\<close> from the start of the loop: the loop, and the \<^verbatim>\<open>finally\<close>
  block once the loop is left, by \<^verbatim>\<open>break\<close> (\<open>Shutdown\<close>) or by an exception, which then
  goes on and ends the process (\<open>Aborted\<close>). \<open>alive\<close> is what \<^verbatim>\<open>listen_thread.is_alive()\<close>
  returns then.
\<close>

definition main_realtime :: "args \<Rightarrow> bool \<Rightarrow> turn list \<Rightarrow> entry list \<Rightarrow> bot" where
  "main_realtime a alive ts h =
     (let (left, h', es) = realtime_loop a ts h
      in case left of
           Running \<Rightarrow>
             \<lparr>phase = Listening, continue_listening = True, transcript = h', events = es\<rparr>
         | Break \<Rightarrow>
             \<lparr>phase = Shutdown, continue_listening = False, transcript = h',
              events = es @ (if alive then [Join 2] else [])\<rparr>
         | Raised \<Rightarrow>
             \<lparr>phase = Aborted, continue_listening = False, transcript = h',
              events = es @ (if alive then [Join 2] else [])\<rparr>)"

text \<open>
  The loop of the traditional mode. A turn's \<open>got\<close> is then what \<^verbatim>\<open>listen_for_speech\<close> or
  \<^verbatim>\<open>input\<close> returns: \<open>QueueEmpty\<close> stands for no speech heard, and in text mode the chunk
  always holds a string, which may be empty. There is no handler in this loop, and an
  exception that leaves it ends the process.
\<close>

fun traditional_loop :: "args \<Rightarrow> turn list \<Rightarrow> entry list \<Rightarrow> leave \<times> entry list \<times> main_event list" where
  "traditional_loop a [] h = (Running, h, [])"
| "traditional_loop a (t # ts) h =
     (let user_input = (case got t of QueueEmpty \<Rightarrow> None | Chunk u \<Rightarrow> u)
      in if raises t = Some AtInput then (Raised, h, [])
         else if \<not> text_mode a \<and> (user_input = None \<or> user_input = Some [])
         then traditional_loop a ts h
         else (let u = (case user_input of None \<Rightarrow> [] | Some s \<Rightarrow> s)
               in if is_exit u then (fst (farewell a t), h, snd (farewell a t))
                  else (let (completed, h', es) = respond a t h u
                        in if completed then
                             (let (left, h'', es') = traditional_loop a ts h'
                              in (left, h'', es @ es'))
                           else (Raised, h', es))))"

section \<open>Smile confidence\<close>

text \<open>
  A detected rectangle is \<^verbatim>\<open>(x, y, w, h)\<close>. The arithmetic of the source is floating point
  and is taken here over the reals. A face of area zero makes the quotient undefined (the
  source divides by zero), which is the \<open>Inl\<close> result.
\<close>

type_synonym rect = "int \<times> int \<times> int \<times> int"

definition calculate_smile_confidence :: "rect list \<Rightarrow> int \<Rightarrow> int \<Rightarrow> exn + real" where
  "calculate_smile_confidence smiles face_width face_height =
     (if length smiles = 0 then Inr 0
      else (let face_area = face_width * face_height;
                smile_area_sum = (\<Sum>(x, y, sw, sh)\<leftarrow>smiles. sw * sh)
            in if face_area = 0 then Inl Exception
               else (let area_ratio = min (real_of_int smile_area_sum / real_of_int face_area) 1 * (1 / 2);
                         num_smiles_factor = min (real (length smiles) / 3) 1 * (1 / 2)
                     in Inr (area_ratio + num_smiles_factor))))"

section \<open>Notions used to state the results\<close>

text \<open>
  The arguments of a run started with \<^verbatim>\<open>--realtime --activation-only --stream\<close>, and of the
  same run without \<^verbatim>\<open>--activation-only\<close>.
\<close>

definition activation_only_args :: args where
  "activation_only_args =
     \<lparr>text_mode = False, mute = False, fallback_tts = False, activation_only = True,
      realtime = True, use_openai_speech = False, stream = True, voice = ''nova'',
      always_listen = False\<rparr>"




text \<open>The number of user turns on a transcript.\<close>

definition user_turns :: "entry list \<Rightarrow> nat" where
  "user_turns h = length (filter (\<lambda>e. fst e = User) h)"


text \<open>A turn whose effective command is an exit phrase.\<close>

definition exit_turn :: "turn \<Rightarrow> bool" where
  "exit_turn t = (case got t of Chunk (Some u) \<Rightarrow> is_exit u | _ \<Rightarrow> False)"

text \<open>A turn in which nothing raises.\<close>

definition quiet :: "turn \<Rightarrow> bool" where
  "quiet t = (raises t = None)"



section \<open>Chat Pipeline: results\<close>

text \<open>
  C1. The streamed reply \<^verbatim>\<open>Hi! [DISPLAY:happy]\<close>, arriving in three fragments, sends \<^verbatim>\<open>happy\<close>
  to the device twice: once in the loop, when the closing bracket arrives, and once more in
  \<^verbatim>\<open>process_display_commands\<close> on the full text. The first command is the neutral face sent
  before the request. The cleaned text is \<^verbatim>\<open>Hi! \<close>, and the single-shot path sends the
  directive of the same reply once.
\<close>

theorem stream_dispatches_directive_twice:
  "sent (chat_with_ai_stream now
           (StreamResponse 200 [Delta ''Hi! '', Delta ''[DISPLAY:'', Delta ''happy]'', Done]) h u)
     = [''neutral'', ''happy'', ''happy'']
   \<and> reply (chat_with_ai_stream now
           (StreamResponse 200 [Delta ''Hi! '', Delta ''[DISPLAY:'', Delta ''happy]'', Done]) h u)
     = ''Hi! ''
   \<and> sent (chat_with_ai now (ChatResponse 200 (Some ''Hi! [DISPLAY:happy]'')) h u) = [''happy'']"
  by code_simp



lemma chat_with_ai_history:
  "history (chat_with_ai now r h u) = h @ [(User, u)]
   \<or> (\<exists>x. history (chat_with_ai now r h u) = h @ [(User, u), (Assistant, x)])
   \<or> history (chat_with_ai now r h u) = h @ [(User, u), (AssistantNull, [])]"
  by (auto simp: chat_with_ai_def Let_def split: chat_response.splits option.splits prod.splits)

lemma chat_with_ai_stream_history:
  "history (chat_with_ai_stream now r h u) = h @ [(User, u)]
   \<or> (\<exists>x. history (chat_with_ai_stream now r h u) = h @ [(User, u), (Assistant, x)])"
  by (auto simp: chat_with_ai_stream_def Let_def
      split: stream_response.splits sum.splits prod.splits)

lemma chat_with_ai_request: "request_messages (chat_with_ai now r h u) = h @ [(User, u)]"
  by (auto simp: chat_with_ai_def Let_def split: chat_response.splits option.splits prod.splits)

lemma chat_with_ai_stream_request:
  "request_messages (chat_with_ai_stream now r h u) = h @ [(User, u)]"
  by (auto simp: chat_with_ai_stream_def Let_def
      split: stream_response.splits sum.splits prod.splits)

text \<open>
  C9. Whatever the chat service answers, the transcript after a chat call starts with the old
  transcript followed by the new user turn, it has exactly one user turn more, and the request
  carried the old transcript and that turn. When the request raises or the status is not 200
  the transcript is exactly the old one and the user turn, and the next request, whatever its
  input, carries that turn again.
\<close>

theorem chat_keeps_user_turn:
  "prefix (h @ [(User, u)]) (history (chat_with_ai now r h u))
   \<and> user_turns (history (chat_with_ai now r h u)) = Suc (user_turns h)
   \<and> request_messages (chat_with_ai now r h u) = h @ [(User, u)]
   \<and> prefix (h @ [(User, u)]) (history (chat_with_ai_stream now r' h u))
   \<and> user_turns (history (chat_with_ai_stream now r' h u)) = Suc (user_turns h)
   \<and> request_messages (chat_with_ai_stream now r' h u) = h @ [(User, u)]
   \<and> (r = ChatRaises \<or> (\<exists>status body. r = ChatResponse status body \<and> status \<noteq> 200)
        \<longrightarrow> history (chat_with_ai now r h u) = h @ [(User, u)]
          \<and> prefix (h @ [(User, u)])
               (request_messages (chat_with_ai now2 r2 (history (chat_with_ai now r h u)) u2)))
   \<and> (r' = StreamRaises \<or> (\<exists>status ls. r' = StreamResponse status ls \<and> status \<noteq> 200)
        \<longrightarrow> history (chat_with_ai_stream now r' h u) = h @ [(User, u)]
          \<and> prefix (h @ [(User, u)])
               (request_messages
                  (chat_with_ai_stream now2 r2' (history (chat_with_ai_stream now r' h u)) u2)))"
proof -
  have f: "r = ChatRaises \<or> (\<exists>status body. r = ChatResponse status body \<and> status \<noteq> 200)
       \<Longrightarrow> history (chat_with_ai now r h u) = h @ [(User, u)]"
    by (auto simp: chat_with_ai_def Let_def)
  have f': "r' = StreamRaises \<or> (\<exists>status ls. r' = StreamResponse status ls \<and> status \<noteq> 200)
       \<Longrightarrow> history (chat_with_ai_stream now r' h u) = h @ [(User, u)]"
    by (auto simp: chat_with_ai_stream_def Let_def)
  show ?thesis
    using chat_with_ai_history [of now r h u] chat_with_ai_stream_history [of now r' h u] f f'
    by (auto simp: chat_with_ai_request chat_with_ai_stream_request user_turns_def)
qed

theorem chat_keeps_user_turn_witness:
  "history (chat_with_ai ''03:45 PM'' (ChatResponse 500 None) [(System, ''You are Emo'')] ''hello'')
     = [(System, ''You are Emo''), (User, ''hello'')]
   \<and> prefix [(System, ''You are Emo''), (User, ''hello'')]
       (request_messages (chat_with_ai ''03:46 PM'' (ChatResponse 200 (Some ''Hi!''))
          (history (chat_with_ai ''03:45 PM'' (ChatResponse 500 None)
             [(System, ''You are Emo'')] ''hello'')) ''again''))
   \<and> history (chat_with_ai_stream ''03:45 PM'' StreamRaises [(System, ''You are Emo'')] ''hello'')
     = [(System, ''You are Emo''), (User, ''hello'')]
   \<and> prefix [(System, ''You are Emo''), (User, ''hello'')]
       (request_messages (chat_with_ai_stream ''03:46 PM'' (StreamResponse 200 [Delta ''Hi!''])
          (history (chat_with_ai_stream ''03:45 PM'' StreamRaises
             [(System, ''You are Emo'')] ''hello'')) ''again''))"
proof -
  note w = chat_keeps_user_turn [where r = "ChatResponse 500 None" and r' = StreamRaises
      and h = "[(System, ''You are Emo'')]" and u = "''hello''" and now = "''03:45 PM''"
      and ?now2.0 = "''03:46 PM''" and ?r2.0 = "ChatResponse 200 (Some ''Hi!'')"
      and r2' = "StreamResponse 200 [Delta ''Hi!'']" and ?u2.0 = "''again''", simplified]
  show ?thesis using w by blast
qed

section \<open>Activation Gate: results\<close>











section \<open>Speech output: results\<close>

text \<open>
  C5. With the cloud voice asked for, a speech API that answers 500 or a request that raises
  leaves the text unspoken: \<^verbatim>\<open>speak_with_openai_tts\<close> returns normally, \<^verbatim>\<open>success\<close> is true, and
  the local engine, which would speak, is never started.
\<close>

theorem speak_text_no_fallback:
  "speak_text ''hello'' True ''nova'' (TtsResponse 500) p LocalSpeaks = []
   \<and> speak_text ''hello'' True ''nova'' TtsRaises p LocalSpeaks = []
   \<and> speak_text ''hello'' False ''nova'' r p LocalSpeaks = [LocalVoice ''hello'']"
  by (simp add: speak_text_def speak_with_openai_tts_def)

theorem speak_text_no_fallback_witness:
  "speak_text ''hello'' True ''nova'' (TtsResponse 500) Played LocalSpeaks = []
   \<and> speak_text ''hello'' True ''nova'' TtsRaises Played LocalSpeaks = []
   \<and> speak_text ''hello'' False ''nova'' (TtsResponse 200) Played LocalSpeaks
       = [LocalVoice ''hello'']"
  using speak_text_no_fallback [of Played "TtsResponse 200"] by simp

section \<open>Capture Thread: results\<close>





section \<open>Main Loop: results\<close>

lemma is_exit_nonempty: "is_exit u \<Longrightarrow> u \<noteq> []"
  by (auto simp: is_exit_def lower_def ascii_def)

lemma realtime_loop_break:
  "fst (realtime_loop a ts h) = Break \<Longrightarrow> list_ex exit_turn ts"
  by (induction ts arbitrary: h)
     (auto simp: exit_turn_def case_prod_beta Let_def
           split: queue_get.splits option.splits if_splits)

lemma realtime_loop_exit:
  "list_ex exit_turn ts \<Longrightarrow> fst (realtime_loop a ts h) \<noteq> Running"
  by (induction ts arbitrary: h)
     (auto simp: exit_turn_def farewell_def case_prod_beta Let_def dest: is_exit_nonempty
           split: queue_get.splits option.splits if_splits)

lemma realtime_loop_raised:
  "fst (realtime_loop a ts h) = Raised \<Longrightarrow> list_ex (\<lambda>t. \<not> quiet t) ts"
  by (induction ts arbitrary: h)
     (auto simp: quiet_def farewell_def respond_def case_prod_beta Let_def
           split: queue_get.splits option.splits if_splits)

lemma traditional_loop_break:
  "fst (traditional_loop a ts h) = Break \<Longrightarrow> list_ex exit_turn ts"
  by (induction ts arbitrary: h)
     (auto simp: exit_turn_def is_exit_def lower_def ascii_def case_prod_beta Let_def
           split: queue_get.splits option.splits if_splits)

lemma traditional_loop_exit:
  "list_ex exit_turn ts \<Longrightarrow> fst (traditional_loop a ts h) \<noteq> Running"
  by (induction ts arbitrary: h)
     (auto simp: exit_turn_def farewell_def case_prod_beta Let_def dest: is_exit_nonempty
           split: queue_get.splits option.splits if_splits)

lemma traditional_loop_raised:
  "fst (traditional_loop a ts h) = Raised \<Longrightarrow> list_ex (\<lambda>t. \<not> quiet t) ts"
  by (induction ts arbitrary: h)
     (auto simp: quiet_def farewell_def respond_def case_prod_beta Let_def
           split: queue_get.splits option.splits if_splits)

lemma quiet_all: "list_all quiet ts \<Longrightarrow> \<not> list_ex (\<lambda>t. \<not> quiet t) ts"
  by (induction ts) auto

lemma main_realtime_phase:
  "phase (main_realtime a alive ts h) =
     (case fst (realtime_loop a ts h) of
        Running \<Rightarrow> Listening | Break \<Rightarrow> Shutdown | Raised \<Rightarrow> Aborted)"
  by (simp add: main_realtime_def case_prod_beta split: leave.splits)

lemma main_realtime_left:
  "phase (main_realtime a alive ts h) \<noteq> Listening \<Longrightarrow>
     \<not> continue_listening (main_realtime a alive ts h)
     \<and> (alive \<longrightarrow> last (events (main_realtime a alive ts h)) = Join 2)"
  by (simp add: main_realtime_def case_prod_beta split: leave.splits)

lemma main_realtime_listening:
  "phase (main_realtime a alive ts h) = Listening \<Longrightarrow>
     continue_listening (main_realtime a alive ts h)
     \<and> events (main_realtime a alive ts h) = snd (snd (realtime_loop a ts h))"
  by (simp add: main_realtime_def case_prod_beta split: leave.splits)

lemma respond_quiet:
  "raises t = None \<Longrightarrow>
   respond a t h u =
     (let res = (if stream a then chat_with_ai_stream (clock t) (streamed t) h u
                 else chat_with_ai (clock t) (single t) h u)
      in (True, history res,
          map Device (sent res) @ [Print (''AI: '' @ reply res)]
          @ (if mute a then [] else [Say (reply res)]) @ [Device ''neutral'']))"
  by (simp add: respond_def Let_def)

text \<open>
  C8, as the code has it. The real-time loop is left by \<^verbatim>\<open>break\<close> (shutdown) only when a turn
  had an effective command that is an exit phrase, that is one whose lower-cased form is
  \<^verbatim>\<open>quit\<close>, \<^verbatim>\<open>exit\<close> or \<^verbatim>\<open>bye\<close>, and after such a turn the loop is not listening any more. It
  is left by an exception only when the print, the speech or the device call of a turn raises,
  and a turn with another command in which one of them raises does leave it so (as does, in
  the traditional loop, a turn whose reading of the input raises). When nothing raises,
  shutdown is reached exactly when an exit phrase was met, and the loop is listening exactly
  when none was. However the loop is left, the continue flag is false and the last
  thing done is the join with the timeout of two seconds, which the code makes when the
  capture thread is alive; while the loop is listening the flag is true. A non-empty command
  that is not an exit phrase, in a turn where nothing raises, gets the response: the chat
  request carries the transcript and the command as user turn, the commands of the chat call
  go to the device, the reply is printed after \<^verbatim>\<open>AI: \<close> and spoken unless muted, the device is
  sent the neutral face, the transcript is the one the chat call leaves, and the loop goes on
  with the next turn. The traditional loop does the same, without flag and join.
\<close>

theorem main_loop_leaves:
  "(phase (main_realtime a alive ts h) = Shutdown \<longrightarrow> list_ex exit_turn ts)
   \<and> (list_ex exit_turn ts \<longrightarrow> phase (main_realtime a alive ts h) \<noteq> Listening)
   \<and> (phase (main_realtime a alive ts h) = Aborted \<longrightarrow> list_ex (\<lambda>t. \<not> quiet t) ts)
   \<and> (list_all quiet ts \<longrightarrow>
        (phase (main_realtime a alive ts h) = Shutdown \<longleftrightarrow> list_ex exit_turn ts)
        \<and> (phase (main_realtime a alive ts h) = Listening \<longleftrightarrow> \<not> list_ex exit_turn ts))
   \<and> (is_exit u \<longleftrightarrow> lower u = ''quit'' \<or> lower u = ''exit'' \<or> lower u = ''bye'')
   \<and> (phase (main_realtime a alive ts h) \<noteq> Listening \<longrightarrow>
        \<not> continue_listening (main_realtime a alive ts h)
        \<and> (alive \<longrightarrow> last (events (main_realtime a alive ts h)) = Join 2))
   \<and> (phase (main_realtime a alive ts h) = Listening \<longrightarrow>
        continue_listening (main_realtime a alive ts h))
   \<and> (got t = Chunk (Some u) \<and> u \<noteq> [] \<and> \<not> is_exit u \<and> quiet t \<longrightarrow>
        (let res = (if stream a then chat_with_ai_stream (clock t) (streamed t) h u
                    else chat_with_ai (clock t) (single t) h u);
             es = map Device (sent res) @ [Print (''AI: '' @ reply res)]
                  @ (if mute a then [] else [Say (reply res)]) @ [Device ''neutral'']
         in request_messages res = h @ [(User, u)]
            \<and> main_realtime a alive [t] h
                = \<lparr>phase = Listening, continue_listening = True, transcript = history res,
                   events = es\<rparr>
            \<and> realtime_loop a (t # ts) h
                = (fst (realtime_loop a ts (history res)),
                   fst (snd (realtime_loop a ts (history res))),
                   es @ snd (snd (realtime_loop a ts (history res))))
            \<and> traditional_loop a (t # ts) h
                = (fst (traditional_loop a ts (history res)),
                   fst (snd (traditional_loop a ts (history res))),
                   es @ snd (snd (traditional_loop a ts (history res))))))
   \<and> (fst (traditional_loop a ts h) = Break \<longrightarrow> list_ex exit_turn ts)
   \<and> (list_ex exit_turn ts \<longrightarrow> fst (traditional_loop a ts h) \<noteq> Running)
   \<and> (list_all quiet ts \<longrightarrow>
        (fst (traditional_loop a ts h) = Break \<longleftrightarrow> list_ex exit_turn ts)
        \<and> (fst (traditional_loop a ts h) = Running \<longleftrightarrow> \<not> list_ex exit_turn ts))
   \<and> (got t = Chunk (Some u) \<and> u \<noteq> [] \<and> \<not> is_exit u
        \<and> (raises t = Some AtPrint \<or> raises t = Some AtSpeak \<and> \<not> mute a
             \<or> raises t = Some AtNeutral) \<longrightarrow>
        phase (main_realtime a alive (t # ts) h) = Aborted
        \<and> fst (traditional_loop a (t # ts) h) = Raised)
   \<and> (raises t = Some AtInput \<longrightarrow> fst (traditional_loop a (t # ts) h) = Raised)"
proof -
  let ?R = "fst (realtime_loop a ts h)"
  let ?T = "fst (traditional_loop a ts h)"
  have ph: "phase (main_realtime a alive ts h) =
     (case ?R of Running \<Rightarrow> Listening | Break \<Rightarrow> Shutdown | Raised \<Rightarrow> Aborted)"
    by (rule main_realtime_phase)
  have 1: "phase (main_realtime a alive ts h) = Shutdown \<longrightarrow> list_ex exit_turn ts"
    using realtime_loop_break [of a ts h] by (simp add: ph split: leave.splits)
  have 2: "list_ex exit_turn ts \<longrightarrow> phase (main_realtime a alive ts h) \<noteq> Listening"
    using realtime_loop_exit [of ts a h] by (auto simp: ph split: leave.splits)
  have 3: "phase (main_realtime a alive ts h) = Aborted \<longrightarrow> list_ex (\<lambda>t. \<not> quiet t) ts"
    using realtime_loop_raised [of a ts h] by (simp add: ph split: leave.splits)
  have 4: "list_all quiet ts \<longrightarrow>
        (phase (main_realtime a alive ts h) = Shutdown \<longleftrightarrow> list_ex exit_turn ts)
        \<and> (phase (main_realtime a alive ts h) = Listening \<longleftrightarrow> \<not> list_ex exit_turn ts)"
    using 1 2 3 quiet_all [of ts] by (cases "phase (main_realtime a alive ts h)") auto
  have 5: "is_exit u \<longleftrightarrow> lower u = ''quit'' \<or> lower u = ''exit'' \<or> lower u = ''bye''"
    by (auto simp: is_exit_def)
  have 6: "phase (main_realtime a alive ts h) \<noteq> Listening \<longrightarrow>
        \<not> continue_listening (main_realtime a alive ts h)
        \<and> (alive \<longrightarrow> last (events (main_realtime a alive ts h)) = Join 2)"
    using main_realtime_left [of a alive ts h] by blast
  have 7: "phase (main_realtime a alive ts h) = Listening \<longrightarrow>
        continue_listening (main_realtime a alive ts h)"
    using main_realtime_listening [of a alive ts h] by blast
  have 8: "got t = Chunk (Some u) \<and> u \<noteq> [] \<and> \<not> is_exit u \<and> quiet t \<longrightarrow>
        (let res = (if stream a then chat_with_ai_stream (clock t) (streamed t) h u
                    else chat_with_ai (clock t) (single t) h u);
             es = map Device (sent res) @ [Print (''AI: '' @ reply res)]
                  @ (if mute a then [] else [Say (reply res)]) @ [Device ''neutral'']
         in request_messages res = h @ [(User, u)]
            \<and> main_realtime a alive [t] h
                = \<lparr>phase = Listening, continue_listening = True, transcript = history res,
                   events = es\<rparr>
            \<and> realtime_loop a (t # ts) h
                = (fst (realtime_loop a ts (history res)),
                   fst (snd (realtime_loop a ts (history res))),
                   es @ snd (snd (realtime_loop a ts (history res))))
            \<and> traditional_loop a (t # ts) h
                = (fst (traditional_loop a ts (history res)),
                   fst (snd (traditional_loop a ts (history res))),
                   es @ snd (snd (traditional_loop a ts (history res)))))"
    by (auto simp: quiet_def respond_quiet main_realtime_def Let_def case_prod_beta
          chat_with_ai_request chat_with_ai_stream_request)
  have 9: "fst (traditional_loop a ts h) = Break \<longrightarrow> list_ex exit_turn ts"
    using traditional_loop_break [of a ts h] by blast
  have 10: "list_ex exit_turn ts \<longrightarrow> fst (traditional_loop a ts h) \<noteq> Running"
    using traditional_loop_exit [of ts a h] by blast
  have 11: "list_all quiet ts \<longrightarrow>
        (fst (traditional_loop a ts h) = Break \<longleftrightarrow> list_ex exit_turn ts)
        \<and> (fst (traditional_loop a ts h) = Running \<longleftrightarrow> \<not> list_ex exit_turn ts)"
    using 9 10 traditional_loop_raised [of a ts h] quiet_all [of ts]
    by (cases "fst (traditional_loop a ts h)") auto
  have 12: "got t = Chunk (Some u) \<and> u \<noteq> [] \<and> \<not> is_exit u
        \<and> (raises t = Some AtPrint \<or> raises t = Some AtSpeak \<and> \<not> mute a
             \<or> raises t = Some AtNeutral) \<longrightarrow>
        phase (main_realtime a alive (t # ts) h) = Aborted
        \<and> fst (traditional_loop a (t # ts) h) = Raised"
    by (auto simp: respond_def main_realtime_def Let_def case_prod_beta)
  have 13: "raises t = Some AtInput \<longrightarrow> fst (traditional_loop a (t # ts) h) = Raised"
    by simp
  show ?thesis
    using 1 2 3 4 5 6 7 8 9 10 11 12 13 by (intro conjI)
qed


theorem main_loop_leaves_witness:
  "phase (main_realtime activation_only_args True
        [\<lparr>got = Chunk (Some ''Quit''), clock = ''03:45 PM'', single = ChatRaises,
          streamed = StreamRaises, raises = None\<rparr>] []) = Shutdown
   \<and> \<not> continue_listening (main_realtime activation_only_args True
        [\<lparr>got = Chunk (Some ''Quit''), clock = ''03:45 PM'', single = ChatRaises,
          streamed = StreamRaises, raises = None\<rparr>] [])
   \<and> last (events (main_realtime activation_only_args True
        [\<lparr>got = Chunk (Some ''Quit''), clock = ''03:45 PM'', single = ChatRaises,
          streamed = StreamRaises, raises = None\<rparr>] [])) = Join 2
   \<and> main_realtime activation_only_args True
        [\<lparr>got = Chunk (Some ''play music''), clock = ''03:45 PM'', single = ChatRaises,
          streamed = StreamRaises, raises = None\<rparr>] []
       = \<lparr>phase = Listening, continue_listening = True,
          transcript = [(User, ''play music'')],
          events = [Device ''neutral'', Print (''AI: '' @ apology), Say apology,
                    Device ''neutral'']\<rparr>"
proof -
  define q where "q = \<lparr>got = Chunk (Some ''Quit''), clock = ''03:45 PM'', single = ChatRaises,
       streamed = StreamRaises, raises = None\<rparr>"
  define m where "m = \<lparr>got = Chunk (Some ''play music''), clock = ''03:45 PM'',
       single = ChatRaises, streamed = StreamRaises, raises = None\<rparr>"
  have e: "list_ex exit_turn [q]"
    unfolding q_def by code_simp
  have qq: "list_all quiet [q]"
    by (simp add: q_def quiet_def)
  have n: "\<not> is_exit ''play music''"
    by code_simp
  have g: "got m = Chunk (Some ''play music'') \<and> ''play music'' \<noteq> [] \<and> quiet m"
    by (simp add: m_def quiet_def)
  have r: "chat_with_ai_stream (clock m) (streamed m) [] ''play music''
             = \<lparr>reply = apology, history = [(User, ''play music'')], sent = [''neutral''],
                request_messages = [(User, ''play music'')]\<rparr>"
    by (simp add: m_def chat_with_ai_stream_def Let_def)
  note w = main_loop_leaves [where a = activation_only_args and alive = True and ts = "[q]"
      and h = "[]" and u = "''play music''" and t = m]
  have A: "phase (main_realtime activation_only_args True [q] []) = Shutdown"
    using w e qq by blast
  then have B: "\<not> continue_listening (main_realtime activation_only_args True [q] [])
        \<and> last (events (main_realtime activation_only_args True [q] [])) = Join 2"
    using w by simp
  have C: "main_realtime activation_only_args True [m] []
       = \<lparr>phase = Listening, continue_listening = True,
          transcript = [(User, ''play music'')],
          events = [Device ''neutral'', Print (''AI: '' @ apology), Say apology,
                    Device ''neutral'']\<rparr>"
    using w n g r by (simp add: Let_def activation_only_args_def)
  show ?thesis
    using A B C unfolding q_def m_def by simp
qed

text \<open>
  C8 as the claim words it fails: the command \<^verbatim>\<open>play music\<close> is no exit phrase, and when the
  print of the reply raises the loop is left all the same, with the flag cleared and the
  thread joined, and does not return to listening.
\<close>

theorem main_loop_raise_counterexample:
  "phase (main_realtime activation_only_args True
        [\<lparr>got = Chunk (Some ''play music''), clock = ''03:45 PM'', single = ChatRaises,
          streamed = StreamRaises, raises = Some AtPrint\<rparr>] []) = Aborted
   \<and> \<not> continue_listening (main_realtime activation_only_args True
        [\<lparr>got = Chunk (Some ''play music''), clock = ''03:45 PM'', single = ChatRaises,
          streamed = StreamRaises, raises = Some AtPrint\<rparr>] [])
   \<and> last (events (main_realtime activation_only_args True
        [\<lparr>got = Chunk (Some ''play music''), clock = ''03:45 PM'', single = ChatRaises,
          streamed = StreamRaises, raises = Some AtPrint\<rparr>] [])) = Join 2
   \<and> \<not> is_exit ''play music''"
  by code_simp

section \<open>Smile confidence: results\<close>

lemma smile_area_nonneg:
  "\<forall>(x, y, sw, sh) \<in> set (smiles :: rect list). 0 \<le> sw \<and> 0 \<le> sh
     \<Longrightarrow> 0 \<le> (\<Sum>(x, y, sw, sh)\<leftarrow>smiles. sw * sh)"
  by (induction smiles) (auto simp: case_prod_beta intro!: add_nonneg_nonneg mult_nonneg_nonneg)

text \<open>
  C10. For a face of positive width and height and detected rectangles, whose widths and
  heights are not negative, the confidence is defined and lies between 0 and 1. It is 0 for no
  rectangle, and otherwise the sum of the area ratio capped at 1 and halved and of a third of
  the number of rectangles capped at 1 and halved.
\<close>

theorem smile_confidence_bounds:
  assumes "0 < face_width" and "0 < face_height"
    and "\<forall>(x, y, sw, sh) \<in> set smiles. 0 \<le> sw \<and> 0 \<le> sh"
  shows "\<exists>c. calculate_smile_confidence smiles face_width face_height = Inr c
         \<and> 0 \<le> c \<and> c \<le> 1
         \<and> (smiles = [] \<longrightarrow> c = 0)
         \<and> (smiles \<noteq> [] \<longrightarrow>
              c = min (real_of_int (\<Sum>(x, y, sw, sh)\<leftarrow>smiles. sw * sh)
                        / real_of_int (face_width * face_height)) 1 * (1 / 2)
                  + min (real (length smiles) / 3) 1 * (1 / 2))"
proof (cases "smiles = []")
  case True
  then show ?thesis by (simp add: calculate_smile_confidence_def)
next
  case False
  define S where "S = (\<Sum>(x, y, sw, sh)\<leftarrow>smiles. sw * sh)"
  define A where "A = face_width * face_height"
  have A: "0 < A" using assms(1,2) by (simp add: A_def mult_pos_pos)
  have S: "0 \<le> S" unfolding S_def using smile_area_nonneg [OF assms(3)] .
  have q: "0 \<le> real_of_int S / real_of_int A" using A S by simp
  define ar where "ar = min (real_of_int S / real_of_int A) 1 * (1 / 2)"
  define nf where "nf = min (real (length smiles) / 3) 1 * (1 / 2)"
  have ar: "0 \<le> ar \<and> ar \<le> 1 / 2" using q by (auto simp: ar_def min_def)
  have nf: "0 \<le> nf \<and> nf \<le> 1 / 2" by (auto simp: nf_def min_def)
  have c: "calculate_smile_confidence smiles face_width face_height = Inr (ar + nf)"
    using False A
    by (simp add: calculate_smile_confidence_def Let_def ar_def nf_def S_def [symmetric]
          A_def [symmetric] del: of_int_mult)
  have "0 \<le> ar + nf \<and> ar + nf \<le> 1" using ar nf by linarith
  moreover have "ar + nf = min (real_of_int (\<Sum>(x, y, sw, sh)\<leftarrow>smiles. sw * sh)
                        / real_of_int (face_width * face_height)) 1 * (1 / 2)
                  + min (real (length smiles) / 3) 1 * (1 / 2)"
    by (simp only: ar_def nf_def S_def A_def)
  ultimately show ?thesis using c False by blast
qed

theorem smile_confidence_bounds_witness:
  "(0::int) < 100
   \<and> list_all (\<lambda>(x, y, sw, sh). 0 \<le> sw \<and> 0 \<le> sh)
         [(0::int, 0::int, 10::int, 5::int), (1, 1, 20, 10)]
   \<and> (\<exists>c. calculate_smile_confidence [(0, 0, 10, 5), (1, 1, 20, 10)] 100 100 = Inr c
            \<and> 0 \<le> c \<and> c \<le> 1)"
proof -
  have h: "\<forall>(x, y, sw, sh) \<in> set [(0::int, 0::int, 10::int, 5::int), (1, 1, 20, 10)]. 0 \<le> sw \<and> 0 \<le> sh"
    by simp
  have p: "(0::int) < 100" by simp
  from smile_confidence_bounds [OF p p h]
  have "\<exists>c. calculate_smile_confidence [(0, 0, 10, 5), (1, 1, 20, 10)] 100 100 = Inr c
            \<and> 0 \<le> c \<and> c \<le> 1"
    by blast
  then show ?thesis using h by simp
qed

section \<open>Display Client: results\<close>




end
